theory Spec2Isabelle
  imports Complex_Main "HOL-Library.Sublist"
begin

section \<open>Data model\<close>

text \<open>
  The repository holds two revisions of one class \<open>App\<close>: \<^verbatim>\<open>src/js/app.js\<close> (a single
  torus) and the later, larger revision (nested \<open>add\<close>, \<open>findAll\<close>, orbit controls, cube and
  Mars).  Where the two revisions share a method body (\<open>find\<close>, the \<open>size\<close> getter) one
  definition embeds both; where they differ (\<open>add\<close>, \<open>animate\<close>, the constructor) the
  definition of the first revision carries the prefix \<open>app_js_\<close>.

  Objects of the graphics library (meshes, lights, helpers) are opaque to this code: it
  only stores references to them and passes them on.  A reference is an \<open>obj_id\<close>.
\<close>

type_synonym obj_id = nat

text \<open>
  The values that occur as names.  A renderable carries an optional string
  (\<^verbatim>\<open>@param {string} [objects[].name]\<close>), so reading \<open>o.name\<close> yields a string or
  \<open>undefined\<close>; the argument of \<open>find\<close>/\<open>findAll\<close> is a string, \<open>undefined\<close> (also when
  the argument is left out) or \<open>null\<close>.
\<close>

datatype jsval = JUndefined | JNull | JString string

text \<open>JavaScript's \<open>==\<close> on these values: \<open>undefined\<close> and \<open>null\<close> are equal to each other
  and to themselves and to nothing else; two strings are equal when they are the same
  sequence of characters.\<close>

fun loose_eq :: "jsval \<Rightarrow> jsval \<Rightarrow> bool" where
  "loose_eq (JString s) (JString t) = (s = t)"
| "loose_eq (JString s) _ = False"
| "loose_eq _ (JString t) = False"
| "loose_eq _ _ = True"

record renderable =
  name :: "string option"
  mesh :: obj_id

text \<open>The property read \<open>o.name\<close>: a missing field reads as \<open>undefined\<close>.\<close>

definition name_of :: "renderable \<Rightarrow> jsval" where
  "name_of r = (case name r of None \<Rightarrow> JUndefined | Some s \<Rightarrow> JString s)"

text \<open>
  The arguments of \<open>add(...objects)\<close>: each argument is a renderable or an array whose
  elements are again renderables or arrays.
\<close>

datatype 'a nested = Leaf 'a | Arr "'a nested list"

text \<open>\<open>Array.prototype.flat(Infinity)\<close>: the leaves, left to right, at every depth.\<close>

fun flat :: "'a nested list \<Rightarrow> 'a list" where
  "flat [] = []"
| "flat (Leaf x # rest) = x # flat rest"
| "flat (Arr xs # rest) = flat xs @ flat rest"

text \<open>The number of leaf renderables of a batch, counted without flattening it.\<close>

fun leaves :: "'a nested list \<Rightarrow> nat" where
  "leaves [] = 0"
| "leaves (Leaf x # rest) = Suc (leaves rest)"
| "leaves (Arr xs # rest) = leaves xs + leaves rest"

text \<open>
  What the code does to objects it does not own (the scene, the renderer, the camera,
  the meshes' transforms, the orbit controls, the window) is kept as a trace of the calls
  and assignments it makes, in order.  Numbers are written as the source's decimal
  literals, as exact rationals; rounding to double precision is not represented.
\<close>

datatype axis = X | Y | Z

datatype effect =
    SceneAdd obj_id
  | Render
  | RotationAdd obj_id axis rat
  | CameraPositionSet axis rat
  | ControlsUpdate
  | RequestAnimationFrame

text \<open>
  The state of an \<open>App\<close>: the registry \<open>this.objects\<close>, the trace of effects on the outside
  world, and the number of \<open>animate\<close> callbacks waiting in the window's list of
  animation frame callbacks.
\<close>

record app =
  objects :: "renderable list"
  trace :: "effect list"
  raf_callbacks :: nat

text \<open>The window and the document as the code reads them.\<close>

record browser =
  innerWidth :: nat
  innerHeight :: nat
  body_top :: rat

section \<open>The registry\<close>

text \<open>Appending one effect to the trace.\<close>

definition perform :: "effect \<Rightarrow> app \<Rightarrow> app" where
  "perform e a = a\<lparr>trace := trace a @ [e]\<rparr>"

text \<open>\<open>add(object)\<close> of \<^verbatim>\<open>src/js/app.js\<close>:
  \<open>this.objects.push(object); this.scene.add(object.mesh)\<close>.\<close>

definition app_js_add :: "app \<Rightarrow> renderable \<Rightarrow> app" where
  "app_js_add a object =
     perform (SceneAdd (mesh object)) (a\<lparr>objects := objects a @ [object]\<rparr>)"

text \<open>\<open>add(...objects)\<close> of the later revision.  The callback handed to \<open>forEach\<close>:
  \<open>this.objects.push(o); this.scene.add(o.mesh)\<close>.\<close>

definition add_one :: "app \<Rightarrow> renderable \<Rightarrow> app" where
  "add_one a r = perform (SceneAdd (mesh r)) (a\<lparr>objects := objects a @ [r]\<rparr>)"

text \<open>\<open>forEach\<close> with this callback: the elements in order, each on the state the one
  before it left.\<close>

fun forEach :: "app \<Rightarrow> renderable list \<Rightarrow> app" where
  "forEach a [] = a"
| "forEach a (r # rs) = forEach (add_one a r) rs"

definition add :: "app \<Rightarrow> renderable nested list \<Rightarrow> app" where
  "add a objs = forEach a (flat objs)"

text \<open>
  \<open>find(name)\<close>, the same in both revisions (named \<open>find_mesh\<close>, since \<open>find\<close> is the
  library's function on lists):
  \<open>this.objects.find((o) => o.name == name)?.mesh\<close>.  The result \<open>None\<close> is \<open>undefined\<close>;
  a mesh is an object of the library, never \<open>undefined\<close> itself.
\<close>

definition find_mesh :: "app \<Rightarrow> jsval \<Rightarrow> obj_id option" where
  "find_mesh a n =
     (case List.find (\<lambda>r. loose_eq (name_of r) n) (objects a) of
        None \<Rightarrow> None
      | Some r \<Rightarrow> Some (mesh r))"

text \<open>\<open>findAll(name)\<close>: \<open>this.objects.filter((o) => o.name == name)\<close>.  The array holds
  the entries themselves.\<close>

definition findAll :: "app \<Rightarrow> jsval \<Rightarrow> renderable list" where
  "findAll a n = filter (\<lambda>r. loose_eq (name_of r) n) (objects a)"

text \<open>The meshes handed to \<open>this.scene.add\<close>, in call order.\<close>

fun scene_added :: "effect list \<Rightarrow> obj_id list" where
  "scene_added [] = []"
| "scene_added (SceneAdd m # es) = m # scene_added es"
| "scene_added (e # es) = scene_added es"

section \<open>The animation loop\<close>

text \<open>
  A statement either completes or throws; either way it leaves a state behind.  The only
  error this code can raise by itself is the \<open>TypeError\<close> of reading a property of
  \<open>undefined\<close>.  Calls into the graphics library and the DOM (\<open>render\<close>,
  \<open>controls.update\<close>, \<open>getBoundingClientRect\<close> on the document's body,
  \<open>requestAnimationFrame\<close>) are taken to return.
\<close>

datatype error = TypeError

datatype outcome = Done app | Threw error app

type_synonym stmt = "app \<Rightarrow> outcome"

fun state_of :: "outcome \<Rightarrow> app" where
  "state_of (Done a) = a"
| "state_of (Threw e a) = a"

text \<open>Statements in sequence: the first throw ends the block.\<close>

fun seq :: "stmt list \<Rightarrow> stmt" where
  "seq [] a = Done a"
| "seq (s # ss) a = (case s a of Done a' \<Rightarrow> seq ss a' | Threw e a' \<Rightarrow> Threw e a')"

text \<open>\<open>if (c) { ... }\<close> without an else branch.\<close>

definition if_then :: "bool \<Rightarrow> stmt list \<Rightarrow> stmt" where
  "if_then c ss a = (if c then seq ss a else Done a)"

text \<open>A call or assignment on an object the code holds for certain
  (\<open>this.renderer\<close>, \<open>this.camera\<close>, \<open>this.controls\<close>).\<close>

definition effect_stmt :: "effect \<Rightarrow> stmt" where
  "effect_stmt e a = Done (perform e a)"

text \<open>\<open>m.rotation.<axis> += c\<close> where \<open>m\<close> is the result of a \<open>find\<close>: on \<open>undefined\<close> the
  property read throws.\<close>

fun rotation_add :: "obj_id option \<Rightarrow> axis \<Rightarrow> rat \<Rightarrow> stmt" where
  "rotation_add None ax c a = Threw TypeError a"
| "rotation_add (Some m) ax c a = Done (perform (RotationAdd m ax c) a)"

text \<open>\<open>window.requestAnimationFrame(animate)\<close>: one more callback waits for the next
  frame.\<close>

definition request_animation_frame :: stmt where
  "request_animation_frame a =
     Done (perform RequestAnimationFrame (a\<lparr>raf_callbacks := Suc (raf_callbacks a)\<rparr>))"

text \<open>The truth value of the result of a \<open>find\<close>: an object is truthy, \<open>undefined\<close> is
  not.\<close>

fun truthy :: "obj_id option \<Rightarrow> bool" where
  "truthy None = False"
| "truthy (Some m) = True"

text \<open>The callback \<open>animate\<close> of the later revision.\<close>

definition animate :: "browser \<Rightarrow> stmt" where
  "animate w = seq
     [effect_stmt Render,
      (\<lambda>a. let torus = find_mesh a (JString ''torus'');
               cube = find_mesh a (JString ''cube'');
               mars = find_mesh a (JString ''mars'')
           in seq
             [if_then (truthy torus)
                [rotation_add torus X 0.01,
                 rotation_add torus Y 0.01,
                 rotation_add torus Z 0.01],
              if_then (truthy torus \<and> truthy cube \<and> truthy mars)
                (let top = body_top w in
                 [rotation_add mars Y 0.01,
                  rotation_add cube Y 0.01,
                  rotation_add cube Z 0.01,
                  effect_stmt (CameraPositionSet X (top * - 0.0002)),
                  effect_stmt (CameraPositionSet Y (top * - 0.0002)),
                  effect_stmt (CameraPositionSet Z (top * - 0.01))]),
              effect_stmt ControlsUpdate,
              request_animation_frame] a)]"

text \<open>The callback \<open>animate\<close> of \<^verbatim>\<open>src/js/app.js\<close>.\<close>

definition app_js_animate :: stmt where
  "app_js_animate = seq
     [effect_stmt Render,
      (\<lambda>a. let torus = find_mesh a (JString ''torus'')
           in seq
             [if_then (truthy torus)
                [rotation_add torus X 0.01,
                 rotation_add torus Y 0.01],
              request_animation_frame] a)]"

text \<open>
  The constructor: \<open>this.objects = []\<close>, then the private methods that build the scene,
  the camera, the renderer (and the controls), which touch neither the registry nor the
  frame callbacks, then \<open>#renderScene\<close>, which calls \<open>animate\<close> once.
\<close>

definition new_App :: "browser \<Rightarrow> outcome" where
  "new_App w = animate w \<lparr>objects = [], trace = [], raf_callbacks = 0\<rparr>"

definition app_js_new_App :: outcome where
  "app_js_new_App = app_js_animate \<lparr>objects = [], trace = [], raf_callbacks = 0\<rparr>"

text \<open>
  One display refresh, as the browser runs it: the list of waiting callbacks is taken
  and emptied, and each callback taken is run; an exception in a callback is reported
  and the state it left stays.
\<close>

fun run_callbacks :: "stmt \<Rightarrow> nat \<Rightarrow> app \<Rightarrow> app" where
  "run_callbacks cb 0 a = a"
| "run_callbacks cb (Suc n) a = run_callbacks cb n (state_of (cb a))"

definition animation_frame :: "stmt \<Rightarrow> app \<Rightarrow> app" where
  "animation_frame cb a = run_callbacks cb (raf_callbacks a) (a\<lparr>raf_callbacks := 0\<rparr>)"

section \<open>The size getter\<close>

text \<open>
  The quotient of two viewport lengths as JavaScript computes it: division by zero does
  not throw.  The quotient is kept exact.
\<close>

datatype js_number = JsFinite rat | JsInfinity | JsNaN

definition js_div :: "nat \<Rightarrow> nat \<Rightarrow> js_number" where
  "js_div x y =
     (if y = 0 then (if x = 0 then JsNaN else JsInfinity)
      else JsFinite (of_nat x / of_nat y))"

record size_obj =
  width :: nat
  height :: nat
  aspect :: js_number

definition get_size :: "browser \<Rightarrow> size_obj" where
  "get_size w =
     (let width = innerWidth w;
          height = innerHeight w
      in \<lparr>width = width, height = height, aspect = js_div width height\<rparr>)"

section \<open>The public interface as a state machine\<close>

text \<open>
  \<open>addHelpers\<close> hands three renderables to \<open>add\<close>; their meshes are objects the library
  has just constructed (the light helper from the result of \<open>find("point-light")\<close>),
  given here by their references.
\<close>

definition addHelpers :: "app \<Rightarrow> obj_id \<Rightarrow> obj_id \<Rightarrow> obj_id \<Rightarrow> app" where
  "addHelpers a axes grid light =
     add a
       [Leaf \<lparr>name = Some ''axes-helper'', mesh = axes\<rparr>,
        Leaf \<lparr>name = Some ''grid-helper'', mesh = grid\<rparr>,
        Leaf \<lparr>name = Some ''point-light-helper'', mesh = light\<rparr>]"

datatype factory = CreateTorus | CreatePointLight | CreateCube | CreateStar | CreateMars

text \<open>
  Everything that can happen to an \<open>App\<close> of the later revision after its construction.
  The lookups and the getter return a value and assign nothing; \<open>addEventListeners\<close> has
  an empty body; the factories construct a library object and read and write no field
  of the \<open>App\<close>.
\<close>

datatype call =
    Call_add "renderable nested list"
  | Call_find jsval
  | Call_findAll jsval
  | Get_size browser
  | Call_addEventListeners
  | Call_addHelpers obj_id obj_id obj_id
  | Call_create factory
  | Animation_frame browser

fun step :: "app \<Rightarrow> call \<Rightarrow> app" where
  "step a (Call_add objs) = add a objs"
| "step a (Call_find n) = a"
| "step a (Call_findAll n) = a"
| "step a (Get_size w) = a"
| "step a Call_addEventListeners = a"
| "step a (Call_addHelpers axes grid light) = addHelpers a axes grid light"
| "step a (Call_create f) = a"
| "step a (Animation_frame w) = animation_frame (animate w) a"

definition run :: "app \<Rightarrow> call list \<Rightarrow> app" where
  "run a cs = foldl step a cs"

text \<open>The same for \<^verbatim>\<open>src/js/app.js\<close>.\<close>

datatype app_js_call =
    App_js_add renderable
  | App_js_find jsval
  | App_js_get_size browser
  | App_js_createTorus
  | App_js_animation_frame

fun app_js_step :: "app \<Rightarrow> app_js_call \<Rightarrow> app" where
  "app_js_step a (App_js_add object) = app_js_add a object"
| "app_js_step a (App_js_find n) = a"
| "app_js_step a (App_js_get_size w) = a"
| "app_js_step a App_js_createTorus = a"
| "app_js_step a App_js_animation_frame = animation_frame app_js_animate a"

definition app_js_run :: "app \<Rightarrow> app_js_call list \<Rightarrow> app" where
  "app_js_run a cs = foldl app_js_step a cs"

section \<open>Notions used in the statements\<close>

text \<open>The \<open>App\<close> after its construction and a sequence of \<open>add\<close> calls, one list of
  arguments per call.\<close>

definition built :: "browser \<Rightarrow> renderable nested list list \<Rightarrow> app" where
  "built w calls = foldl add (state_of (new_App w)) calls"

text \<open>The same for \<^verbatim>\<open>src/js/app.js\<close>, whose \<open>add\<close> takes one renderable.\<close>

definition app_js_built :: "renderable list \<Rightarrow> app" where
  "app_js_built objs = foldl app_js_add (state_of app_js_new_App) objs"

text \<open>The registry and the scene agree: the meshes handed to the scene are the meshes of
  the registry's entries, entry by entry.\<close>

definition lockstep :: "app \<Rightarrow> bool" where
  "lockstep a = (scene_added (trace a) = map mesh (objects a))"

text \<open>The effects that one invocation of \<open>animate\<close> adds to the trace.\<close>

definition frame_effects :: "browser \<Rightarrow> app \<Rightarrow> effect list" where
  "frame_effects w a = drop (length (trace a)) (trace (state_of (animate w a)))"

text \<open>The calls whose body calls \<open>this.add\<close>.\<close>

fun goes_through_add :: "call \<Rightarrow> bool" where
  "goes_through_add (Call_add objs) = True"
| "goes_through_add (Call_addHelpers axes grid light) = True"
| "goes_through_add c = False"

section \<open>Properties\<close>

subsection \<open>Effects and the registry\<close>

lemma perform_fields:
  "objects (perform e a) = objects a"
  "trace (perform e a) = trace a @ [e]"
  "raf_callbacks (perform e a) = raf_callbacks a"
  by (simp_all add: perform_def)

lemma add_one_fields:
  "objects (add_one a r) = objects a @ [r]"
  "trace (add_one a r) = trace a @ [SceneAdd (mesh r)]"
  "raf_callbacks (add_one a r) = raf_callbacks a"
  by (simp_all add: add_one_def perform_fields)

lemma forEach_objects: "objects (forEach a rs) = objects a @ rs"
  by (induction rs arbitrary: a) (simp_all add: add_one_fields)

lemma forEach_trace: "trace (forEach a rs) = trace a @ map (\<lambda>r. SceneAdd (mesh r)) rs"
  by (induction rs arbitrary: a) (simp_all add: add_one_fields)

lemma forEach_raf: "raf_callbacks (forEach a rs) = raf_callbacks a"
  by (induction rs arbitrary: a) (simp_all add: add_one_fields)

lemma length_flat: "length (flat b) = leaves b"
  by (induction b rule: flat.induct) simp_all

lemma scene_added_append: "scene_added (es @ fs) = scene_added es @ scene_added fs"
  by (induction es rule: scene_added.induct) simp_all

lemma scene_added_SceneAdd: "scene_added (map (\<lambda>r. SceneAdd (mesh r)) rs) = map mesh rs"
  by (induction rs) simp_all

lemma add_objects: "objects (add a b) = objects a @ flat b"
  by (simp add: add_def forEach_objects)

lemma add_trace: "trace (add a b) = trace a @ map (\<lambda>r. SceneAdd (mesh r)) (flat b)"
  by (simp add: add_def forEach_trace)

lemma add_raf: "raf_callbacks (add a b) = raf_callbacks a"
  by (simp add: add_def forEach_raf)

lemma add_scene: "scene_added (trace (add a b)) = scene_added (trace a) @ map mesh (flat b)"
  by (simp add: add_trace scene_added_append scene_added_SceneAdd)

text \<open>
  Claim C3.  For every state of the registry and every batch of arguments, nested to any
  depth, with \<open>N\<close> leaf renderables: \<open>add\<close> appends the flattened batch, in order, after
  the existing entries, so the registry grows by exactly \<open>N\<close>; and it hands exactly the
  \<open>N\<close> meshes of these renderables to the scene, in the same order.
\<close>

theorem add_appends_flattened_batch:
  "objects (add a b) = objects a @ flat b
   \<and> length (flat b) = leaves b
   \<and> length (objects (add a b)) = length (objects a) + leaves b
   \<and> trace (add a b) = trace a @ map (\<lambda>r. SceneAdd (mesh r)) (flat b)
   \<and> scene_added (trace (add a b)) = scene_added (trace a) @ map mesh (flat b)
   \<and> length (scene_added (trace (add a b))) = length (scene_added (trace a)) + leaves b"
  by (simp add: add_objects add_scene length_flat) (simp add: add_trace)

theorem add_appends_flattened_batch_witness:
  "objects (add \<lparr>objects = [\<lparr>name = Some ''torus'', mesh = 1\<rparr>], trace = [SceneAdd 1], raf_callbacks = 1\<rparr>
      [Leaf \<lparr>name = Some ''cube'', mesh = 2\<rparr>,
       Arr [Leaf \<lparr>name = Some ''star'', mesh = 3\<rparr>, Arr [Leaf \<lparr>name = None, mesh = 4\<rparr>], Arr []]])
     = [\<lparr>name = Some ''torus'', mesh = 1\<rparr>, \<lparr>name = Some ''cube'', mesh = 2\<rparr>,
        \<lparr>name = Some ''star'', mesh = 3\<rparr>, \<lparr>name = None, mesh = 4\<rparr>]
   \<and> leaves [Leaf \<lparr>name = Some ''cube'', mesh = 2\<rparr>,
       Arr [Leaf \<lparr>name = Some ''star'', mesh = 3\<rparr>, Arr [Leaf \<lparr>name = None, mesh = 4\<rparr>], Arr []]]
     = 3
   \<and> scene_added (trace (add \<lparr>objects = [\<lparr>name = Some ''torus'', mesh = 1\<rparr>], trace = [SceneAdd 1], raf_callbacks = 1\<rparr>
      [Leaf \<lparr>name = Some ''cube'', mesh = 2\<rparr>,
       Arr [Leaf \<lparr>name = Some ''star'', mesh = 3\<rparr>, Arr [Leaf \<lparr>name = None, mesh = 4\<rparr>], Arr []]]))
     = [1, 2, 3, 4]"
  using add_appends_flattened_batch
    [of "\<lparr>objects = [\<lparr>name = Some ''torus'', mesh = 1\<rparr>], trace = [SceneAdd 1], raf_callbacks = 1\<rparr>"
        "[Leaf \<lparr>name = Some ''cube'', mesh = 2\<rparr>,
          Arr [Leaf \<lparr>name = Some ''star'', mesh = 3\<rparr>, Arr [Leaf \<lparr>name = None, mesh = 4\<rparr>], Arr []]]"]
  by simp

subsection \<open>The callback\<close>

lemma animate_Done:
  "animate w a = Done (a\<lparr>trace := trace a @ [Render] @
      (case find_mesh a (JString ''torus'') of None \<Rightarrow> []
       | Some t \<Rightarrow> [RotationAdd t X 0.01, RotationAdd t Y 0.01, RotationAdd t Z 0.01]) @
      (case (find_mesh a (JString ''torus''), find_mesh a (JString ''cube''), find_mesh a (JString ''mars'')) of
         (Some t, Some c, Some m) \<Rightarrow>
           [RotationAdd m Y 0.01, RotationAdd c Y 0.01, RotationAdd c Z 0.01,
            CameraPositionSet X (body_top w * - 0.0002),
            CameraPositionSet Y (body_top w * - 0.0002),
            CameraPositionSet Z (body_top w * - 0.01)]
       | _ \<Rightarrow> []) @
      [ControlsUpdate, RequestAnimationFrame],
      raf_callbacks := Suc (raf_callbacks a)\<rparr>)"
  by (simp add: animate_def effect_stmt_def perform_def if_then_def request_animation_frame_def
        find_mesh_def Let_def split: option.splits)

lemma app_js_animate_Done:
  "app_js_animate a = Done (a\<lparr>trace := trace a @ [Render] @
      (case find_mesh a (JString ''torus'') of None \<Rightarrow> []
       | Some t \<Rightarrow> [RotationAdd t X 0.01, RotationAdd t Y 0.01]) @
      [RequestAnimationFrame],
      raf_callbacks := Suc (raf_callbacks a)\<rparr>)"
  by (simp add: app_js_animate_def effect_stmt_def perform_def if_then_def request_animation_frame_def
        find_mesh_def Let_def split: option.splits)

lemmas registry_eval =
  built_def app_js_built_def new_App_def app_js_new_App_def animate_Done app_js_animate_Done
  add_def add_one_def app_js_add_def perform_def find_mesh_def findAll_def name_of_def

subsection \<open>Lookups\<close>

lemma loose_eq_string: "loose_eq (name_of r) (JString s) = (name r = Some s)"
  by (cases "name r") (simp_all add: name_of_def)

lemma loose_eq_nullish:
  "loose_eq (name_of r) JUndefined = (name r = None)"
  "loose_eq (name_of r) JNull = (name r = None)"
  by (cases "name r"; simp add: name_of_def)+

lemma find_mesh_None:
  "find_mesh a n = None \<longleftrightarrow> (\<forall>i<length (objects a). \<not> loose_eq (name_of (objects a ! i)) n)"
proof -
  have "find_mesh a n = None \<longleftrightarrow> List.find (\<lambda>r. loose_eq (name_of r) n) (objects a) = None"
    by (simp add: find_mesh_def split: option.splits)
  also have "\<dots> \<longleftrightarrow> (\<forall>r \<in> set (objects a). \<not> loose_eq (name_of r) n)"
    by (auto simp: find_None_iff)
  also have "\<dots> \<longleftrightarrow> (\<forall>i<length (objects a). \<not> loose_eq (name_of (objects a ! i)) n)"
    by (simp add: all_set_conv_all_nth)
  finally show ?thesis .
qed

lemma find_mesh_Some:
  "find_mesh a n = Some m \<longleftrightarrow>
     (\<exists>i<length (objects a). loose_eq (name_of (objects a ! i)) n \<and> mesh (objects a ! i) = m
        \<and> (\<forall>j<i. \<not> loose_eq (name_of (objects a ! j)) n))"
proof -
  have "find_mesh a n = Some m \<longleftrightarrow>
      (\<exists>r. List.find (\<lambda>r. loose_eq (name_of r) n) (objects a) = Some r \<and> mesh r = m)"
    by (simp add: find_mesh_def split: option.splits)
  also have "\<dots> \<longleftrightarrow> (\<exists>i<length (objects a). loose_eq (name_of (objects a ! i)) n
        \<and> mesh (objects a ! i) = m \<and> (\<forall>j<i. \<not> loose_eq (name_of (objects a ! j)) n))"
    unfolding find_Some_iff by blast
  finally show ?thesis .
qed

lemma find_mesh_earliest:
  "case find_mesh a (JString s) of
     None \<Rightarrow> \<forall>i<length (objects a). name (objects a ! i) \<noteq> Some s
   | Some m \<Rightarrow> \<exists>i<length (objects a). name (objects a ! i) = Some s \<and> mesh (objects a ! i) = m
        \<and> (\<forall>j<i. name (objects a ! j) \<noteq> Some s)"
proof (cases "find_mesh a (JString s)")
  case None
  have "\<forall>i<length (objects a). name (objects a ! i) \<noteq> Some s"
    using None unfolding find_mesh_None loose_eq_string .
  then show ?thesis unfolding None by simp
next
  case (Some m)
  have "\<exists>i<length (objects a). name (objects a ! i) = Some s \<and> mesh (objects a ! i) = m
        \<and> (\<forall>j<i. name (objects a ! j) \<noteq> Some s)"
    using Some unfolding find_mesh_Some loose_eq_string .
  then show ?thesis unfolding Some by simp
qed

lemma foldl_add_objects: "objects (foldl add a calls) = objects a @ concat (map flat calls)"
  by (induction calls arbitrary: a) (simp_all add: add_objects)

lemma foldl_app_js_add_objects: "objects (foldl app_js_add a objs) = objects a @ objs"
  by (induction objs arbitrary: a) (simp_all add: app_js_add_def perform_def)

lemma new_App_objects: "objects (state_of (new_App w)) = []"
  by (simp add: new_App_def animate_Done)

lemma app_js_new_App_objects: "objects (state_of app_js_new_App) = []"
  by (simp add: app_js_new_App_def app_js_animate_Done)

lemma built_objects: "objects (built w calls) = concat (map flat calls)"
  by (simp add: built_def foldl_add_objects new_App_objects)

lemma app_js_built_objects: "objects (app_js_built objs) = objs"
  by (simp add: app_js_built_def foldl_app_js_add_objects app_js_new_App_objects)

text \<open>
  Claim C1.  After any sequence of \<open>add\<close> calls the registry holds the added renderables
  in insertion order, and \<open>find\<close> with a string returns the mesh of the entry of least
  index whose name is that string, or \<open>undefined\<close> when no entry has that name.  This holds
  for both revisions of \<open>add\<close>.  (Arguments that are not strings are the subject of
  claim C10.)
\<close>

theorem find_returns_earliest_inserted:
  "objects (built w calls) = concat (map flat calls)
   \<and> (case find_mesh (built w calls) (JString s) of
         None \<Rightarrow> \<forall>i<length (objects (built w calls)). name (objects (built w calls) ! i) \<noteq> Some s
       | Some m \<Rightarrow> \<exists>i<length (objects (built w calls)).
           name (objects (built w calls) ! i) = Some s \<and> mesh (objects (built w calls) ! i) = m
           \<and> (\<forall>j<i. name (objects (built w calls) ! j) \<noteq> Some s))
   \<and> objects (app_js_built objs) = objs
   \<and> (case find_mesh (app_js_built objs) (JString s) of
         None \<Rightarrow> \<forall>i<length (objects (app_js_built objs)). name (objects (app_js_built objs) ! i) \<noteq> Some s
       | Some m \<Rightarrow> \<exists>i<length (objects (app_js_built objs)).
           name (objects (app_js_built objs) ! i) = Some s \<and> mesh (objects (app_js_built objs) ! i) = m
           \<and> (\<forall>j<i. name (objects (app_js_built objs) ! j) \<noteq> Some s))"
  using find_mesh_earliest [of "built w calls" s] find_mesh_earliest [of "app_js_built objs" s]
  by (simp only: built_objects app_js_built_objects simp_thms)

theorem find_returns_earliest_inserted_witness:
  "objects
     (built \<lparr>innerWidth = 800, innerHeight = 600, body_top = 0\<rparr>
        [[Leaf \<lparr>name = Some ''torus'', mesh = 1\<rparr>, Leaf \<lparr>name = Some ''cube'', mesh = 2\<rparr>],
         [Arr [Leaf \<lparr>name = Some ''torus'', mesh = 3\<rparr>]]])
     = [\<lparr>name = Some ''torus'', mesh = 1\<rparr>, \<lparr>name = Some ''cube'', mesh = 2\<rparr>,
        \<lparr>name = Some ''torus'', mesh = 3\<rparr>]
   \<and> find_mesh
     (built \<lparr>innerWidth = 800, innerHeight = 600, body_top = 0\<rparr>
        [[Leaf \<lparr>name = Some ''torus'', mesh = 1\<rparr>, Leaf \<lparr>name = Some ''cube'', mesh = 2\<rparr>],
         [Arr [Leaf \<lparr>name = Some ''torus'', mesh = 3\<rparr>]]])
     (JString ''torus'') = Some 1
   \<and> find_mesh
     (built \<lparr>innerWidth = 800, innerHeight = 600, body_top = 0\<rparr>
        [[Leaf \<lparr>name = Some ''torus'', mesh = 1\<rparr>, Leaf \<lparr>name = Some ''cube'', mesh = 2\<rparr>],
         [Arr [Leaf \<lparr>name = Some ''torus'', mesh = 3\<rparr>]]])
     (JString ''missing'') = None
   \<and> find_mesh
     (app_js_built [\<lparr>name = Some ''cube'', mesh = 2\<rparr>, \<lparr>name = Some ''torus'', mesh = 1\<rparr>])
     (JString ''torus'') = Some 1
   \<and> find_mesh
     (app_js_built [\<lparr>name = Some ''cube'', mesh = 2\<rparr>, \<lparr>name = Some ''torus'', mesh = 1\<rparr>])
     (JString ''missing'') = None"
  using
    find_returns_earliest_inserted
      [of "\<lparr>innerWidth = 800, innerHeight = 600, body_top = 0\<rparr>"
          "[[Leaf \<lparr>name = Some ''torus'', mesh = 1\<rparr>, Leaf \<lparr>name = Some ''cube'', mesh = 2\<rparr>],
            [Arr [Leaf \<lparr>name = Some ''torus'', mesh = 3\<rparr>]]]"
          "''torus''"
          "[\<lparr>name = Some ''cube'', mesh = 2\<rparr>, \<lparr>name = Some ''torus'', mesh = 1\<rparr>]"]
    find_returns_earliest_inserted
      [of "\<lparr>innerWidth = 800, innerHeight = 600, body_top = 0\<rparr>"
          "[[Leaf \<lparr>name = Some ''torus'', mesh = 1\<rparr>, Leaf \<lparr>name = Some ''cube'', mesh = 2\<rparr>],
            [Arr [Leaf \<lparr>name = Some ''torus'', mesh = 3\<rparr>]]]"
          "''missing''"
          "[\<lparr>name = Some ''cube'', mesh = 2\<rparr>, \<lparr>name = Some ''torus'', mesh = 1\<rparr>]"]
  by (simp add: registry_eval)

lemma findAll_string: "findAll a (JString s) = filter (\<lambda>r. name r = Some s) (objects a)"
  by (simp add: findAll_def loose_eq_string)

lemma filter_by_index: "filter P xs = map (\<lambda>i. xs ! i) (filter (\<lambda>i. P (xs ! i)) [0..<length xs])"
proof -
  have "filter P (map (\<lambda>i. xs ! i) [0..<length xs]) = map (\<lambda>i. xs ! i) (filter (\<lambda>i. P (xs ! i)) [0..<length xs])"
    by (simp add: filter_map comp_def)
  then show ?thesis by (simp add: map_nth)
qed

text \<open>
  Claim C2.  After any sequence of \<open>add\<close> calls, \<open>findAll\<close> with a string returns the
  entries themselves (name and mesh) at exactly the indices whose name is that string,
  by increasing index, that is, in insertion order; its length is the number of such
  indices.
\<close>

theorem findAll_returns_entries_in_order:
  "objects (built w calls) = concat (map flat calls)
   \<and> findAll (built w calls) (JString s) =
       map (\<lambda>i. objects (built w calls) ! i)
         (filter (\<lambda>i. name (objects (built w calls) ! i) = Some s) [0..<length (objects (built w calls))])
   \<and> subseq (findAll (built w calls) (JString s)) (objects (built w calls))
   \<and> (\<forall>r \<in> set (findAll (built w calls) (JString s)). name r = Some s)
   \<and> length (findAll (built w calls) (JString s)) =
       card {i. i < length (objects (built w calls)) \<and> name (objects (built w calls) ! i) = Some s}"
proof -
  let ?a = "built w calls"
  have 1: "findAll ?a (JString s) =
       map (\<lambda>i. objects ?a ! i) (filter (\<lambda>i. name (objects ?a ! i) = Some s) [0..<length (objects ?a)])"
    unfolding findAll_string by (rule filter_by_index)
  have 2: "subseq (findAll ?a (JString s)) (objects ?a)"
    by (simp add: findAll_string)
  have 3: "\<forall>r \<in> set (findAll ?a (JString s)). name r = Some s"
    by (simp add: findAll_string)
  have 4: "length (findAll ?a (JString s)) = card {i. i < length (objects ?a) \<and> name (objects ?a ! i) = Some s}"
    by (simp add: findAll_string length_filter_conv_card)
  from built_objects 1 2 3 4 show ?thesis by blast
qed

theorem findAll_returns_entries_in_order_witness:
  "findAll
     (built \<lparr>innerWidth = 800, innerHeight = 600, body_top = 0\<rparr>
        [[Leaf \<lparr>name = Some ''star'', mesh = 5\<rparr>, Leaf \<lparr>name = Some ''torus'', mesh = 1\<rparr>],
         [Arr [Leaf \<lparr>name = Some ''star'', mesh = 6\<rparr>, Leaf \<lparr>name = None, mesh = 7\<rparr>]]])
     (JString ''star'')
     = [\<lparr>name = Some ''star'', mesh = 5\<rparr>, \<lparr>name = Some ''star'', mesh = 6\<rparr>]
   \<and> card {i. i < length (objects
       (built \<lparr>innerWidth = 800, innerHeight = 600, body_top = 0\<rparr>
        [[Leaf \<lparr>name = Some ''star'', mesh = 5\<rparr>, Leaf \<lparr>name = Some ''torus'', mesh = 1\<rparr>],
         [Arr [Leaf \<lparr>name = Some ''star'', mesh = 6\<rparr>, Leaf \<lparr>name = None, mesh = 7\<rparr>]]]))
       \<and> name (objects
       (built \<lparr>innerWidth = 800, innerHeight = 600, body_top = 0\<rparr>
        [[Leaf \<lparr>name = Some ''star'', mesh = 5\<rparr>, Leaf \<lparr>name = Some ''torus'', mesh = 1\<rparr>],
         [Arr [Leaf \<lparr>name = Some ''star'', mesh = 6\<rparr>, Leaf \<lparr>name = None, mesh = 7\<rparr>]]]) ! i)
         = Some ''star''} = 2"
proof -
  let ?a = "built \<lparr>innerWidth = 800, innerHeight = 600, body_top = 0\<rparr>
        [[Leaf \<lparr>name = Some ''star'', mesh = 5\<rparr>, Leaf \<lparr>name = Some ''torus'', mesh = 1\<rparr>],
         [Arr [Leaf \<lparr>name = Some ''star'', mesh = 6\<rparr>, Leaf \<lparr>name = None, mesh = 7\<rparr>]]]"
  have e: "findAll ?a (JString ''star'')
      = [\<lparr>name = Some ''star'', mesh = 5\<rparr>, \<lparr>name = Some ''star'', mesh = 6\<rparr>]"
    by (simp add: registry_eval)
  have "length (findAll ?a (JString ''star'')) =
      card {i. i < length (objects ?a) \<and> name (objects ?a ! i) = Some ''star''}"
    using findAll_returns_entries_in_order
      [of "\<lparr>innerWidth = 800, innerHeight = 600, body_top = 0\<rparr>"
          "[[Leaf \<lparr>name = Some ''star'', mesh = 5\<rparr>, Leaf \<lparr>name = Some ''torus'', mesh = 1\<rparr>],
            [Arr [Leaf \<lparr>name = Some ''star'', mesh = 6\<rparr>, Leaf \<lparr>name = None, mesh = 7\<rparr>]]]"
          "''star''"]
    by blast
  with e show ?thesis by simp
qed

lemma find_is_head_of_filter:
  "List.find P xs = (case filter P xs of [] \<Rightarrow> None | r # rs \<Rightarrow> Some r)"
  by (induction xs) simp_all

text \<open>
  Claim C9.  For every state and every argument, \<open>find\<close> returns \<open>undefined\<close> exactly when
  \<open>findAll\<close> returns the empty array, and otherwise it returns the mesh of the first
  entry of the array \<open>findAll\<close> returns.
\<close>

theorem find_agrees_with_findAll:
  "(find_mesh a n = None \<longleftrightarrow> findAll a n = [])
   \<and> (findAll a n \<noteq> [] \<longrightarrow> find_mesh a n = Some (mesh (hd (findAll a n))))"
proof (cases "findAll a n")
  case Nil
  then show ?thesis
    by (simp add: find_mesh_def findAll_def find_is_head_of_filter)
next
  case (Cons r rs)
  then show ?thesis
    by (simp add: find_mesh_def findAll_def find_is_head_of_filter)
qed

theorem find_agrees_with_findAll_witness:
  "findAll \<lparr>objects = [\<lparr>name = Some ''star'', mesh = 5\<rparr>, \<lparr>name = Some ''star'', mesh = 6\<rparr>],
            trace = [SceneAdd 5, SceneAdd 6], raf_callbacks = 1\<rparr> (JString ''star'') \<noteq> []
   \<and> find_mesh \<lparr>objects = [\<lparr>name = Some ''star'', mesh = 5\<rparr>, \<lparr>name = Some ''star'', mesh = 6\<rparr>],
            trace = [SceneAdd 5, SceneAdd 6], raf_callbacks = 1\<rparr> (JString ''star'') = Some 5
   \<and> findAll \<lparr>objects = [\<lparr>name = Some ''star'', mesh = 5\<rparr>, \<lparr>name = Some ''star'', mesh = 6\<rparr>],
            trace = [SceneAdd 5, SceneAdd 6], raf_callbacks = 1\<rparr> (JString ''mars'') = []
   \<and> find_mesh \<lparr>objects = [\<lparr>name = Some ''star'', mesh = 5\<rparr>, \<lparr>name = Some ''star'', mesh = 6\<rparr>],
            trace = [SceneAdd 5, SceneAdd 6], raf_callbacks = 1\<rparr> (JString ''mars'') = None"
proof -
  let ?a = "\<lparr>objects = [\<lparr>name = Some ''star'', mesh = 5\<rparr>, \<lparr>name = Some ''star'', mesh = 6\<rparr>],
            trace = [SceneAdd 5, SceneAdd 6], raf_callbacks = 1\<rparr>"
  have 1: "findAll ?a (JString ''star'')
      = [\<lparr>name = Some ''star'', mesh = 5\<rparr>, \<lparr>name = Some ''star'', mesh = 6\<rparr>]"
    by (simp add: findAll_def name_of_def)
  have 2: "findAll ?a (JString ''mars'') = []"
    by (simp add: findAll_def name_of_def)
  from 1 have 3: "findAll ?a (JString ''star'') \<noteq> []" by simp
  from 3 find_agrees_with_findAll [of ?a "JString ''star''"]
  have "find_mesh ?a (JString ''star'') = Some (mesh (hd (findAll ?a (JString ''star''))))"
    by blast
  with 1 have 4: "find_mesh ?a (JString ''star'') = Some 5" by simp
  from 2 find_agrees_with_findAll [of ?a "JString ''mars''"]
  have 5: "find_mesh ?a (JString ''mars'') = None" by blast
  from 2 3 4 5 show ?thesis by blast
qed

text \<open>
  Claim C10.  Names are compared with \<open>==\<close>.  In every registry that holds a renderable
  without a name, \<open>find(undefined)\<close> and \<open>find(null)\<close> both return the mesh of the earliest
  entry without a name, not \<open>undefined\<close>.
\<close>

theorem find_nullish_returns_earliest_unnamed:
  assumes "\<exists>r \<in> set (objects a). name r = None"
  shows "\<exists>i<length (objects a). name (objects a ! i) = None
           \<and> (\<forall>j<i. name (objects a ! j) \<noteq> None)
           \<and> find_mesh a JUndefined = Some (mesh (objects a ! i))
           \<and> find_mesh a JNull = Some (mesh (objects a ! i))"
proof -
  from assms have "find_mesh a JUndefined \<noteq> None"
    by (auto simp: find_mesh_None loose_eq_nullish in_set_conv_nth)
  then obtain m where "find_mesh a JUndefined = Some m" by blast
  then obtain i where i: "i < length (objects a)" "name (objects a ! i) = None"
      "mesh (objects a ! i) = m" "\<forall>j<i. name (objects a ! j) \<noteq> None"
    by (auto simp: find_mesh_Some loose_eq_nullish)
  then have "find_mesh a JUndefined = Some (mesh (objects a ! i))"
      "find_mesh a JNull = Some (mesh (objects a ! i))"
    unfolding find_mesh_Some loose_eq_nullish by blast+
  with i show ?thesis by blast
qed

theorem find_nullish_returns_earliest_unnamed_witness:
  "(\<exists>r \<in> set (objects \<lparr>objects = [\<lparr>name = Some ''torus'', mesh = 1\<rparr>, \<lparr>name = None, mesh = 2\<rparr>,
              \<lparr>name = None, mesh = 3\<rparr>], trace = [SceneAdd 1, SceneAdd 2, SceneAdd 3],
              raf_callbacks = 1\<rparr>). name r = None)
   \<and> find_mesh \<lparr>objects = [\<lparr>name = Some ''torus'', mesh = 1\<rparr>, \<lparr>name = None, mesh = 2\<rparr>,
              \<lparr>name = None, mesh = 3\<rparr>], trace = [SceneAdd 1, SceneAdd 2, SceneAdd 3],
              raf_callbacks = 1\<rparr> JUndefined = Some 2
   \<and> find_mesh \<lparr>objects = [\<lparr>name = Some ''torus'', mesh = 1\<rparr>, \<lparr>name = None, mesh = 2\<rparr>,
              \<lparr>name = None, mesh = 3\<rparr>], trace = [SceneAdd 1, SceneAdd 2, SceneAdd 3],
              raf_callbacks = 1\<rparr> JNull = Some 2"
proof -
  let ?a = "\<lparr>objects = [\<lparr>name = Some ''torus'', mesh = 1\<rparr>, \<lparr>name = None, mesh = 2\<rparr>,
              \<lparr>name = None, mesh = 3\<rparr>], trace = [SceneAdd 1, SceneAdd 2, SceneAdd 3],
              raf_callbacks = 1\<rparr>"
  have h: "\<exists>r \<in> set (objects ?a). name r = None" by simp
  from find_nullish_returns_earliest_unnamed [OF h]
  obtain i where i: "i < length (objects ?a)" "name (objects ?a ! i) = None"
      "\<forall>j<i. name (objects ?a ! j) \<noteq> None"
      "find_mesh ?a JUndefined = Some (mesh (objects ?a ! i))"
      "find_mesh ?a JNull = Some (mesh (objects ?a ! i))"
    by blast
  have "\<not> 1 < i"
  proof
    assume "1 < i"
    with i(3) have "name (objects ?a ! 1) \<noteq> None" by blast
    then show False by simp
  qed
  moreover have "i \<noteq> 0"
  proof
    assume "i = 0"
    with i(2) show False by simp
  qed
  ultimately have "i = 1" by arith
  with i(4,5) h show ?thesis by simp
qed

subsection \<open>One invocation of the callback\<close>

lemma animate_objects: "objects (state_of (animate w a)) = objects a"
  by (simp add: animate_Done)

lemma animate_raf: "raf_callbacks (state_of (animate w a)) = Suc (raf_callbacks a)"
  by (simp add: animate_Done)

lemma animate_scene: "scene_added (trace (state_of (animate w a))) = scene_added (trace a)"
  by (simp add: animate_Done scene_added_append split: option.splits)

lemma animate_last: "last (trace (state_of (animate w a))) = RequestAnimationFrame"
  by (simp add: animate_Done)

lemma app_js_animate_objects: "objects (state_of (app_js_animate a)) = objects a"
  by (simp add: app_js_animate_Done)

lemma app_js_animate_raf: "raf_callbacks (state_of (app_js_animate a)) = Suc (raf_callbacks a)"
  by (simp add: app_js_animate_Done)

lemma app_js_animate_last: "last (trace (state_of (app_js_animate a))) = RequestAnimationFrame"
  by (simp add: app_js_animate_Done)

lemma frame_effects_eq:
  "frame_effects w a = [Render] @
      (case find_mesh a (JString ''torus'') of None \<Rightarrow> []
       | Some t \<Rightarrow> [RotationAdd t X 0.01, RotationAdd t Y 0.01, RotationAdd t Z 0.01]) @
      (case (find_mesh a (JString ''torus''), find_mesh a (JString ''cube''), find_mesh a (JString ''mars'')) of
         (Some t, Some c, Some m) \<Rightarrow>
           [RotationAdd m Y 0.01, RotationAdd c Y 0.01, RotationAdd c Z 0.01,
            CameraPositionSet X (body_top w * - 0.0002),
            CameraPositionSet Y (body_top w * - 0.0002),
            CameraPositionSet Z (body_top w * - 0.01)]
       | _ \<Rightarrow> []) @
      [ControlsUpdate, RequestAnimationFrame]"
  by (simp add: frame_effects_def animate_Done)

text \<open>
  Claim C5, as the code has it.  An invocation of \<open>animate\<close> never throws, whichever of the
  three lookups miss.  The torus gets its increments (\<open>x\<close>, \<open>y\<close>, \<open>z\<close> by \<open>0.01\<close>) exactly
  when \<open>torus\<close> is found.  Mars (\<open>y\<close>) and the cube (\<open>y\<close>, \<open>z\<close>) get theirs, and the camera
  position is set from the scroll offset, exactly when all three of \<open>torus\<close>, \<open>cube\<close> and
  \<open>mars\<close> are found: both sit under the one guard \<open>torus && cube && mars\<close>.
\<close>

theorem animate_mutations_follow_guards:
  "(\<exists>a'. animate w a = Done a')
   \<and> (find_mesh a (JString ''torus'') = None \<longrightarrow>
        frame_effects w a = [Render, ControlsUpdate, RequestAnimationFrame])
   \<and> (find_mesh a (JString ''torus'') = Some t
        \<and> (find_mesh a (JString ''cube'') = None \<or> find_mesh a (JString ''mars'') = None) \<longrightarrow>
        frame_effects w a =
          [Render,
           RotationAdd t X 0.01, RotationAdd t Y 0.01, RotationAdd t Z 0.01,
           ControlsUpdate, RequestAnimationFrame])
   \<and> (find_mesh a (JString ''torus'') = Some t
        \<and> find_mesh a (JString ''cube'') = Some c \<and> find_mesh a (JString ''mars'') = Some m \<longrightarrow>
        frame_effects w a =
          [Render,
           RotationAdd t X 0.01, RotationAdd t Y 0.01, RotationAdd t Z 0.01,
           RotationAdd m Y 0.01,
           RotationAdd c Y 0.01, RotationAdd c Z 0.01,
           CameraPositionSet X (body_top w * - 0.0002),
           CameraPositionSet Y (body_top w * - 0.0002),
           CameraPositionSet Z (body_top w * - 0.01),
           ControlsUpdate, RequestAnimationFrame])
   \<and> ((\<exists>ax v. CameraPositionSet ax v \<in> set (frame_effects w a)) \<longleftrightarrow>
        find_mesh a (JString ''torus'') \<noteq> None \<and> find_mesh a (JString ''cube'') \<noteq> None
        \<and> find_mesh a (JString ''mars'') \<noteq> None)"
proof -
  have 1: "\<exists>a'. animate w a = Done a'"
    by (simp add: animate_Done)
  have 2: "find_mesh a (JString ''torus'') = None \<longrightarrow>
        frame_effects w a = [Render, ControlsUpdate, RequestAnimationFrame]"
    by (simp add: frame_effects_eq)
  have 3: "find_mesh a (JString ''torus'') = Some t
        \<and> (find_mesh a (JString ''cube'') = None \<or> find_mesh a (JString ''mars'') = None) \<longrightarrow>
        frame_effects w a =
          [Render,
           RotationAdd t X 0.01, RotationAdd t Y 0.01, RotationAdd t Z 0.01,
           ControlsUpdate, RequestAnimationFrame]"
    by (cases "find_mesh a (JString ''torus'')"; cases "find_mesh a (JString ''cube'')";
        cases "find_mesh a (JString ''mars'')")
      (simp_all add: frame_effects_eq)
  have 4: "find_mesh a (JString ''torus'') = Some t
        \<and> find_mesh a (JString ''cube'') = Some c \<and> find_mesh a (JString ''mars'') = Some m \<longrightarrow>
        frame_effects w a =
          [Render,
           RotationAdd t X 0.01, RotationAdd t Y 0.01, RotationAdd t Z 0.01,
           RotationAdd m Y 0.01,
           RotationAdd c Y 0.01, RotationAdd c Z 0.01,
           CameraPositionSet X (body_top w * - 0.0002),
           CameraPositionSet Y (body_top w * - 0.0002),
           CameraPositionSet Z (body_top w * - 0.01),
           ControlsUpdate, RequestAnimationFrame]"
    by (simp add: frame_effects_eq)
  have 5: "(\<exists>ax v. CameraPositionSet ax v \<in> set (frame_effects w a)) \<longleftrightarrow>
        find_mesh a (JString ''torus'') \<noteq> None \<and> find_mesh a (JString ''cube'') \<noteq> None
        \<and> find_mesh a (JString ''mars'') \<noteq> None"
    by (cases "find_mesh a (JString ''torus'')"; cases "find_mesh a (JString ''cube'')";
        cases "find_mesh a (JString ''mars'')")
      (auto simp: frame_effects_eq)
  from 1 2 3 4 5 show ?thesis by blast
qed

theorem animate_mutations_follow_guards_witness:
  "find_mesh \<lparr>objects = [], trace = [], raf_callbacks = 0\<rparr> (JString ''torus'') = None
   \<and> frame_effects \<lparr>innerWidth = 800, innerHeight = 600, body_top = - 1000\<rparr>
        \<lparr>objects = [], trace = [], raf_callbacks = 0\<rparr>
      = [Render, ControlsUpdate, RequestAnimationFrame]
   \<and> find_mesh \<lparr>objects = [\<lparr>name = Some ''torus'', mesh = 1\<rparr>, \<lparr>name = Some ''mars'', mesh = 4\<rparr>],
              trace = [SceneAdd 1, SceneAdd 4], raf_callbacks = 0\<rparr> (JString ''torus'') = Some 1
   \<and> find_mesh \<lparr>objects = [\<lparr>name = Some ''torus'', mesh = 1\<rparr>, \<lparr>name = Some ''mars'', mesh = 4\<rparr>],
              trace = [SceneAdd 1, SceneAdd 4], raf_callbacks = 0\<rparr> (JString ''cube'') = None
   \<and> frame_effects \<lparr>innerWidth = 800, innerHeight = 600, body_top = - 1000\<rparr>
        \<lparr>objects = [\<lparr>name = Some ''torus'', mesh = 1\<rparr>, \<lparr>name = Some ''mars'', mesh = 4\<rparr>],
              trace = [SceneAdd 1, SceneAdd 4], raf_callbacks = 0\<rparr>
      = [Render,
         RotationAdd 1 X 0.01, RotationAdd 1 Y 0.01, RotationAdd 1 Z 0.01,
         ControlsUpdate, RequestAnimationFrame]
   \<and> find_mesh \<lparr>objects = [\<lparr>name = Some ''torus'', mesh = 1\<rparr>, \<lparr>name = Some ''mars'', mesh = 4\<rparr>,
                \<lparr>name = Some ''cube'', mesh = 5\<rparr>],
              trace = [SceneAdd 1, SceneAdd 4, SceneAdd 5], raf_callbacks = 0\<rparr> (JString ''torus'') = Some 1
   \<and> find_mesh \<lparr>objects = [\<lparr>name = Some ''torus'', mesh = 1\<rparr>, \<lparr>name = Some ''mars'', mesh = 4\<rparr>,
                \<lparr>name = Some ''cube'', mesh = 5\<rparr>],
              trace = [SceneAdd 1, SceneAdd 4, SceneAdd 5], raf_callbacks = 0\<rparr> (JString ''cube'') = Some 5
   \<and> find_mesh \<lparr>objects = [\<lparr>name = Some ''torus'', mesh = 1\<rparr>, \<lparr>name = Some ''mars'', mesh = 4\<rparr>,
                \<lparr>name = Some ''cube'', mesh = 5\<rparr>],
              trace = [SceneAdd 1, SceneAdd 4, SceneAdd 5], raf_callbacks = 0\<rparr> (JString ''mars'') = Some 4
   \<and> frame_effects \<lparr>innerWidth = 800, innerHeight = 600, body_top = - 1000\<rparr>
        \<lparr>objects = [\<lparr>name = Some ''torus'', mesh = 1\<rparr>, \<lparr>name = Some ''mars'', mesh = 4\<rparr>,
                \<lparr>name = Some ''cube'', mesh = 5\<rparr>],
              trace = [SceneAdd 1, SceneAdd 4, SceneAdd 5], raf_callbacks = 0\<rparr>
      = [Render,
         RotationAdd 1 X 0.01, RotationAdd 1 Y 0.01, RotationAdd 1 Z 0.01,
         RotationAdd 4 Y 0.01,
         RotationAdd 5 Y 0.01, RotationAdd 5 Z 0.01,
         CameraPositionSet X 0.2, CameraPositionSet Y 0.2, CameraPositionSet Z 10,
         ControlsUpdate, RequestAnimationFrame]"
proof -
  let ?w = "\<lparr>innerWidth = 800, innerHeight = 600, body_top = - 1000\<rparr>"
  let ?none = "\<lparr>objects = [], trace = [], raf_callbacks = 0\<rparr>"
  let ?two = "\<lparr>objects = [\<lparr>name = Some ''torus'', mesh = 1\<rparr>, \<lparr>name = Some ''mars'', mesh = 4\<rparr>],
              trace = [SceneAdd 1, SceneAdd 4], raf_callbacks = 0\<rparr>"
  let ?three = "\<lparr>objects = [\<lparr>name = Some ''torus'', mesh = 1\<rparr>, \<lparr>name = Some ''mars'', mesh = 4\<rparr>,
                \<lparr>name = Some ''cube'', mesh = 5\<rparr>],
              trace = [SceneAdd 1, SceneAdd 4, SceneAdd 5], raf_callbacks = 0\<rparr>"
  have t0: "find_mesh ?none (JString ''torus'') = None"
    by (simp add: find_mesh_def)
  from t0 animate_mutations_follow_guards [of ?w ?none]
  have e0: "frame_effects ?w ?none = [Render, ControlsUpdate, RequestAnimationFrame]"
    by blast
  have t1: "find_mesh ?two (JString ''torus'') = Some 1"
    and c1: "find_mesh ?two (JString ''cube'') = None"
    by (simp_all add: find_mesh_def name_of_def)
  from t1 c1 animate_mutations_follow_guards [of ?w ?two 1]
  have e1: "frame_effects ?w ?two =
      [Render, RotationAdd 1 X 0.01, RotationAdd 1 Y 0.01, RotationAdd 1 Z 0.01,
       ControlsUpdate, RequestAnimationFrame]"
    by blast
  have t: "find_mesh ?three (JString ''torus'') = Some 1"
    and c: "find_mesh ?three (JString ''cube'') = Some 5"
    and m: "find_mesh ?three (JString ''mars'') = Some 4"
    by (simp_all add: find_mesh_def name_of_def)
  from t c m animate_mutations_follow_guards [of ?w ?three 1 5 4]
  have "frame_effects ?w ?three =
          [Render,
           RotationAdd 1 X 0.01, RotationAdd 1 Y 0.01, RotationAdd 1 Z 0.01,
           RotationAdd 4 Y 0.01,
           RotationAdd 5 Y 0.01, RotationAdd 5 Z 0.01,
           CameraPositionSet X (body_top ?w * - 0.0002),
           CameraPositionSet Y (body_top ?w * - 0.0002),
           CameraPositionSet Z (body_top ?w * - 0.01),
           ControlsUpdate, RequestAnimationFrame]"
    by blast
  then have e: "frame_effects ?w ?three =
          [Render,
           RotationAdd 1 X 0.01, RotationAdd 1 Y 0.01, RotationAdd 1 Z 0.01,
           RotationAdd 4 Y 0.01,
           RotationAdd 5 Y 0.01, RotationAdd 5 Z 0.01,
           CameraPositionSet X 0.2, CameraPositionSet Y 0.2, CameraPositionSet Z 10,
           ControlsUpdate, RequestAnimationFrame]"
    by simp
  from t0 e0 t1 c1 e1 t c m e show ?thesis by blast
qed

text \<open>
  Claim C5 as it was stated (every named object that is present gets its increment, and
  a miss skips only the missing object's mutation) does not hold: with a cube and Mars in
  the registry and no torus, both lookups succeed, and the frame rotates neither of them.
\<close>

theorem animate_skips_present_objects_counterexample:
  "find_mesh (built \<lparr>innerWidth = 800, innerHeight = 600, body_top = - 1000\<rparr>
        [[Leaf \<lparr>name = Some ''cube'', mesh = 1\<rparr>, Leaf \<lparr>name = Some ''mars'', mesh = 2\<rparr>]])
     (JString ''cube'') = Some 1
   \<and> find_mesh (built \<lparr>innerWidth = 800, innerHeight = 600, body_top = - 1000\<rparr>
        [[Leaf \<lparr>name = Some ''cube'', mesh = 1\<rparr>, Leaf \<lparr>name = Some ''mars'', mesh = 2\<rparr>]])
     (JString ''mars'') = Some 2
   \<and> find_mesh (built \<lparr>innerWidth = 800, innerHeight = 600, body_top = - 1000\<rparr>
        [[Leaf \<lparr>name = Some ''cube'', mesh = 1\<rparr>, Leaf \<lparr>name = Some ''mars'', mesh = 2\<rparr>]])
     (JString ''torus'') = None
   \<and> frame_effects \<lparr>innerWidth = 800, innerHeight = 600, body_top = - 1000\<rparr>
       (built \<lparr>innerWidth = 800, innerHeight = 600, body_top = - 1000\<rparr>
        [[Leaf \<lparr>name = Some ''cube'', mesh = 1\<rparr>, Leaf \<lparr>name = Some ''mars'', mesh = 2\<rparr>]])
     = [Render, ControlsUpdate, RequestAnimationFrame]
   \<and> RotationAdd 1 Y 0.01 \<notin> set (frame_effects \<lparr>innerWidth = 800, innerHeight = 600, body_top = - 1000\<rparr>
       (built \<lparr>innerWidth = 800, innerHeight = 600, body_top = - 1000\<rparr>
        [[Leaf \<lparr>name = Some ''cube'', mesh = 1\<rparr>, Leaf \<lparr>name = Some ''mars'', mesh = 2\<rparr>]]))
   \<and> RotationAdd 2 Y 0.01 \<notin> set (frame_effects \<lparr>innerWidth = 800, innerHeight = 600, body_top = - 1000\<rparr>
       (built \<lparr>innerWidth = 800, innerHeight = 600, body_top = - 1000\<rparr>
        [[Leaf \<lparr>name = Some ''cube'', mesh = 1\<rparr>, Leaf \<lparr>name = Some ''mars'', mesh = 2\<rparr>]]))"
  by (simp add: frame_effects_def registry_eval)

subsection \<open>Frames and calls\<close>

lemmas machine_eval =
  run_def app_js_run_def addHelpers_def animation_frame_def

lemma run_callbacks_animate_objects: "objects (run_callbacks (animate w) k a) = objects a"
  by (induction k arbitrary: a) (simp_all add: animate_objects)

lemma run_callbacks_animate_scene:
  "scene_added (trace (run_callbacks (animate w) k a)) = scene_added (trace a)"
  by (induction k arbitrary: a) (simp_all add: animate_scene)

lemma animation_frame_objects: "objects (animation_frame (animate w) a) = objects a"
  by (simp add: animation_frame_def run_callbacks_animate_objects)

lemma animation_frame_scene:
  "scene_added (trace (animation_frame (animate w) a)) = scene_added (trace a)"
  by (simp add: animation_frame_def run_callbacks_animate_scene)

lemma animation_frame_once:
  "raf_callbacks a = Suc 0 \<Longrightarrow> animation_frame cb a = state_of (cb (a\<lparr>raf_callbacks := 0\<rparr>))"
  by (simp add: animation_frame_def)

lemma addHelpers_is_add:
  "addHelpers a axes grid light =
     add a [Leaf \<lparr>name = Some ''axes-helper'', mesh = axes\<rparr>,
            Leaf \<lparr>name = Some ''grid-helper'', mesh = grid\<rparr>,
            Leaf \<lparr>name = Some ''point-light-helper'', mesh = light\<rparr>]"
  by (simp add: addHelpers_def)

lemma step_objects_prefix: "prefix (objects a) (objects (step a c))"
  by (cases c) (simp_all add: add_objects addHelpers_is_add animation_frame_objects)

lemma run_objects_prefix: "prefix (objects a) (objects (run a cs))"
  unfolding run_def
proof (induction cs arbitrary: a)
  case Nil
  show ?case by simp
next
  case (Cons c cs)
  have "prefix (objects a) (objects (step a c))" by (rule step_objects_prefix)
  also have "prefix (objects (step a c)) (objects (foldl step (step a c) cs))" by (rule Cons.IH)
  finally show ?case by simp
qed

text \<open>
  Claim C7.  The registry only grows at its end.  Every call of the public interface and
  every frame leaves the registry as a prefix of the registry after it; \<open>find\<close> and
  \<open>findAll\<close> leave it as it is; \<open>add\<close> appends the flattened batch.  After any sequence
  of calls every entry is still at its index.
\<close>

theorem registry_is_append_only:
  "prefix (objects a) (objects (step a c))
   \<and> prefix (objects a) (objects (run a cs))
   \<and> objects (step a (Call_find n)) = objects a
   \<and> objects (step a (Call_findAll n)) = objects a
   \<and> objects (step a (Call_add b)) = objects a @ flat b
   \<and> length (objects a) \<le> length (objects (run a cs))
   \<and> (\<forall>i<length (objects a). objects (run a cs) ! i = objects a ! i)"
proof -
  obtain zs where zs: "objects (run a cs) = objects a @ zs"
    using run_objects_prefix [of a cs] by (auto simp: prefix_def)
  have "length (objects a) \<le> length (objects (run a cs))"
    by (simp add: zs)
  moreover have "\<forall>i<length (objects a). objects (run a cs) ! i = objects a ! i"
    by (simp add: zs nth_append)
  ultimately show ?thesis
    by (simp add: step_objects_prefix run_objects_prefix add_objects)
qed

theorem registry_is_append_only_witness:
  "objects (run \<lparr>objects = [\<lparr>name = Some ''torus'', mesh = 1\<rparr>], trace = [SceneAdd 1], raf_callbacks = 1\<rparr>
      [Call_find (JString ''torus''),
       Call_add [Arr [Leaf \<lparr>name = Some ''torus'', mesh = 2\<rparr>]],
       Animation_frame \<lparr>innerWidth = 800, innerHeight = 600, body_top = 0\<rparr>,
       Call_findAll (JString ''torus'')])
     = [\<lparr>name = Some ''torus'', mesh = 1\<rparr>, \<lparr>name = Some ''torus'', mesh = 2\<rparr>]
   \<and> prefix (objects \<lparr>objects = [\<lparr>name = Some ''torus'', mesh = 1\<rparr>], trace = [SceneAdd 1], raf_callbacks = 1\<rparr>)
       (objects (run \<lparr>objects = [\<lparr>name = Some ''torus'', mesh = 1\<rparr>], trace = [SceneAdd 1], raf_callbacks = 1\<rparr>
      [Call_find (JString ''torus''),
       Call_add [Arr [Leaf \<lparr>name = Some ''torus'', mesh = 2\<rparr>]],
       Animation_frame \<lparr>innerWidth = 800, innerHeight = 600, body_top = 0\<rparr>,
       Call_findAll (JString ''torus'')]))
   \<and> 0 < length (objects \<lparr>objects = [\<lparr>name = Some ''torus'', mesh = 1\<rparr>], trace = [SceneAdd 1], raf_callbacks = 1\<rparr>)
   \<and> objects (run \<lparr>objects = [\<lparr>name = Some ''torus'', mesh = 1\<rparr>], trace = [SceneAdd 1], raf_callbacks = 1\<rparr>
      [Call_find (JString ''torus''),
       Call_add [Arr [Leaf \<lparr>name = Some ''torus'', mesh = 2\<rparr>]],
       Animation_frame \<lparr>innerWidth = 800, innerHeight = 600, body_top = 0\<rparr>,
       Call_findAll (JString ''torus'')]) ! 0
     = \<lparr>name = Some ''torus'', mesh = 1\<rparr>"
proof -
  let ?a = "\<lparr>objects = [\<lparr>name = Some ''torus'', mesh = 1\<rparr>], trace = [SceneAdd 1], raf_callbacks = 1\<rparr>"
  let ?cs = "[Call_find (JString ''torus''),
       Call_add [Arr [Leaf \<lparr>name = Some ''torus'', mesh = 2\<rparr>]],
       Animation_frame \<lparr>innerWidth = 800, innerHeight = 600, body_top = 0\<rparr>,
       Call_findAll (JString ''torus'')]"
  note grow = registry_is_append_only [of ?a _ ?cs]
  have 1: "objects (run ?a ?cs)
      = [\<lparr>name = Some ''torus'', mesh = 1\<rparr>, \<lparr>name = Some ''torus'', mesh = 2\<rparr>]"
    by (simp add: registry_eval machine_eval)
  from grow have 2: "prefix (objects ?a) (objects (run ?a ?cs))"
    by blast
  have 3: "0 < length (objects ?a)"
    by simp
  from grow have "\<forall>i<length (objects ?a). objects (run ?a ?cs) ! i = objects ?a ! i"
    by blast
  with 3 have "objects (run ?a ?cs) ! 0 = objects ?a ! 0"
    by blast
  then have 4: "objects (run ?a ?cs) ! 0 = \<lparr>name = Some ''torus'', mesh = 1\<rparr>"
    by simp
  from 1 2 3 4 show ?thesis by blast
qed

lemma step_lockstep: "lockstep a \<Longrightarrow> lockstep (step a c)"
  by (cases c)
    (simp_all add: lockstep_def add_objects add_scene addHelpers_is_add
       animation_frame_objects animation_frame_scene)

lemma run_lockstep: "lockstep a \<Longrightarrow> lockstep (run a cs)"
  unfolding run_def by (induction cs arbitrary: a) (simp_all add: step_lockstep)

lemma new_App_lockstep: "lockstep (state_of (new_App w))"
  by (simp add: lockstep_def new_App_def animate_scene animate_objects)

lemma step_without_add:
  "\<not> goes_through_add c \<Longrightarrow>
     scene_added (trace (step a c)) = scene_added (trace a) \<and> objects (step a c) = objects a"
  by (cases c) (simp_all add: animation_frame_objects animation_frame_scene)

lemma step_through_add: "goes_through_add c \<Longrightarrow> \<exists>b. step a c = add a b"
  by (cases c) (auto simp: addHelpers_is_add)

text \<open>
  Claim C4.  In every state reachable from the constructor by calls of the public
  interface and frames, the meshes handed to the one scene are the meshes of the
  registry's entries, entry by entry: each entry has been attached once.  A call that
  does not go through \<open>add\<close> changes neither the registry nor what was handed to the
  scene, and the calls that change them are calls of \<open>add\<close>.
\<close>

theorem registry_and_scene_in_lockstep:
  "lockstep (state_of (new_App w))
   \<and> (lockstep a \<longrightarrow> lockstep (step a c))
   \<and> lockstep (run (state_of (new_App w)) cs)
   \<and> scene_added (trace (run (state_of (new_App w)) cs)) = map mesh (objects (run (state_of (new_App w)) cs))
   \<and> (\<not> goes_through_add c \<longrightarrow>
        scene_added (trace (step a c)) = scene_added (trace a) \<and> objects (step a c) = objects a)
   \<and> (goes_through_add c \<longrightarrow> (\<exists>b. step a c = add a b))"
proof -
  have 1: "lockstep (run (state_of (new_App w)) cs)"
    by (rule run_lockstep [OF new_App_lockstep])
  then have 2: "scene_added (trace (run (state_of (new_App w)) cs)) =
      map mesh (objects (run (state_of (new_App w)) cs))"
    by (simp only: lockstep_def)
  have 3: "lockstep a \<longrightarrow> lockstep (step a c)"
    by (simp add: step_lockstep)
  from new_App_lockstep 1 2 3 step_without_add [of c a] step_through_add [of c a]
  show ?thesis by blast
qed

theorem registry_and_scene_in_lockstep_witness:
  "lockstep \<lparr>objects = [\<lparr>name = Some ''point-light'', mesh = 1\<rparr>, \<lparr>name = None, mesh = 2\<rparr>],
             trace = [Render, ControlsUpdate, RequestAnimationFrame, SceneAdd 1, SceneAdd 2],
             raf_callbacks = 1\<rparr>
   \<and> \<not> goes_through_add (Animation_frame \<lparr>innerWidth = 800, innerHeight = 600, body_top = - 120\<rparr>)
   \<and> lockstep
        (step \<lparr>objects = [\<lparr>name = Some ''point-light'', mesh = 1\<rparr>, \<lparr>name = None, mesh = 2\<rparr>],
               trace = [Render, ControlsUpdate, RequestAnimationFrame, SceneAdd 1, SceneAdd 2],
               raf_callbacks = 1\<rparr>
           (Animation_frame \<lparr>innerWidth = 800, innerHeight = 600, body_top = - 120\<rparr>))
   \<and> scene_added (trace
        (step \<lparr>objects = [\<lparr>name = Some ''point-light'', mesh = 1\<rparr>, \<lparr>name = None, mesh = 2\<rparr>],
               trace = [Render, ControlsUpdate, RequestAnimationFrame, SceneAdd 1, SceneAdd 2],
               raf_callbacks = 1\<rparr>
           (Animation_frame \<lparr>innerWidth = 800, innerHeight = 600, body_top = - 120\<rparr>)))
     = [1, 2]
   \<and> scene_added (trace (run (state_of (new_App \<lparr>innerWidth = 800, innerHeight = 600, body_top = 0\<rparr>))
      [Call_add [Leaf \<lparr>name = Some ''point-light'', mesh = 1\<rparr>, Arr [Leaf \<lparr>name = None, mesh = 2\<rparr>]],
       Animation_frame \<lparr>innerWidth = 800, innerHeight = 600, body_top = - 120\<rparr>,
       Call_addHelpers 3 4 5,
       Call_find (JString ''point-light'')]))
     = [1, 2, 3, 4, 5]
   \<and> map mesh (objects (run (state_of (new_App \<lparr>innerWidth = 800, innerHeight = 600, body_top = 0\<rparr>))
      [Call_add [Leaf \<lparr>name = Some ''point-light'', mesh = 1\<rparr>, Arr [Leaf \<lparr>name = None, mesh = 2\<rparr>]],
       Animation_frame \<lparr>innerWidth = 800, innerHeight = 600, body_top = - 120\<rparr>,
       Call_addHelpers 3 4 5,
       Call_find (JString ''point-light'')]))
     = [1, 2, 3, 4, 5]"
proof -
  let ?w = "\<lparr>innerWidth = 800, innerHeight = 600, body_top = 0\<rparr>"
  let ?a = "\<lparr>objects = [\<lparr>name = Some ''point-light'', mesh = 1\<rparr>, \<lparr>name = None, mesh = 2\<rparr>],
             trace = [Render, ControlsUpdate, RequestAnimationFrame, SceneAdd 1, SceneAdd 2],
             raf_callbacks = 1\<rparr>"
  let ?c = "Animation_frame \<lparr>innerWidth = 800, innerHeight = 600, body_top = - 120\<rparr>"
  let ?cs = "[Call_add [Leaf \<lparr>name = Some ''point-light'', mesh = 1\<rparr>, Arr [Leaf \<lparr>name = None, mesh = 2\<rparr>]],
       Animation_frame \<lparr>innerWidth = 800, innerHeight = 600, body_top = - 120\<rparr>,
       Call_addHelpers 3 4 5,
       Call_find (JString ''point-light'')]"
  note inv = registry_and_scene_in_lockstep [of ?w ?a ?c ?cs]
  have a: "lockstep ?a"
    by (simp add: lockstep_def)
  have c: "\<not> goes_through_add ?c"
    by simp
  from inv a have 1: "lockstep (step ?a ?c)"
    by blast
  from inv c have "scene_added (trace (step ?a ?c)) = scene_added (trace ?a)"
    by blast
  then have 2: "scene_added (trace (step ?a ?c)) = [1, 2]"
    by simp
  have 3: "map mesh (objects (run (state_of (new_App ?w)) ?cs)) = [1, 2, 3, 4, 5]"
    by (simp add: registry_eval machine_eval)
  from inv have "scene_added (trace (run (state_of (new_App ?w)) ?cs))
      = map mesh (objects (run (state_of (new_App ?w)) ?cs))"
    by blast
  with 3 have 4: "scene_added (trace (run (state_of (new_App ?w)) ?cs)) = [1, 2, 3, 4, 5]"
    by simp
  from a c 1 2 3 4 show ?thesis by blast
qed

lemma step_raf: "raf_callbacks a = Suc 0 \<Longrightarrow> raf_callbacks (step a c) = Suc 0"
  by (cases c) (simp_all add: add_raf addHelpers_is_add animation_frame_once animate_raf)

lemma run_raf: "raf_callbacks a = Suc 0 \<Longrightarrow> raf_callbacks (run a cs) = Suc 0"
  unfolding run_def by (induction cs arbitrary: a) (simp_all add: step_raf)

lemma app_js_step_raf: "raf_callbacks a = Suc 0 \<Longrightarrow> raf_callbacks (app_js_step a c) = Suc 0"
  by (cases c)
    (simp_all add: app_js_add_def perform_def animation_frame_once app_js_animate_raf)

lemma app_js_run_raf: "raf_callbacks a = Suc 0 \<Longrightarrow> raf_callbacks (app_js_run a cs) = Suc 0"
  unfolding app_js_run_def by (induction cs arbitrary: a) (simp_all add: app_js_step_raf)

lemma new_App_raf: "raf_callbacks (state_of (new_App w)) = Suc 0"
  by (simp add: new_App_def animate_Done)

lemma app_js_new_App_raf: "raf_callbacks (state_of app_js_new_App) = Suc 0"
  by (simp add: app_js_new_App_def app_js_animate_Done)

text \<open>
  Claim C8.  In both revisions every invocation of \<open>animate\<close> completes, and its last
  effect is \<open>requestAnimationFrame(animate)\<close>, whatever the registry holds.  So after the
  constructor and any sequence of calls and frames exactly one callback is waiting, and
  the next frame runs \<open>animate\<close> again: the loop never stops.
\<close>

theorem animate_always_reschedules:
  "(\<exists>a'. animate w a = Done a' \<and> last (trace a') = RequestAnimationFrame
        \<and> raf_callbacks a' = Suc (raf_callbacks a))
   \<and> (\<exists>a'. app_js_animate a = Done a' \<and> last (trace a') = RequestAnimationFrame
        \<and> raf_callbacks a' = Suc (raf_callbacks a))
   \<and> raf_callbacks (run (state_of (new_App w0)) cs) = 1
   \<and> step (run (state_of (new_App w0)) cs) (Animation_frame w) =
        state_of (animate w ((run (state_of (new_App w0)) cs)\<lparr>raf_callbacks := 0\<rparr>))
   \<and> raf_callbacks (app_js_run (state_of app_js_new_App) cs1) = 1
   \<and> app_js_step (app_js_run (state_of app_js_new_App) cs1) App_js_animation_frame =
        state_of (app_js_animate ((app_js_run (state_of app_js_new_App) cs1)\<lparr>raf_callbacks := 0\<rparr>))"
proof -
  have 1: "\<exists>a'. animate w a = Done a' \<and> last (trace a') = RequestAnimationFrame
        \<and> raf_callbacks a' = Suc (raf_callbacks a)"
    by (simp add: animate_Done)
  have 2: "\<exists>a'. app_js_animate a = Done a' \<and> last (trace a') = RequestAnimationFrame
        \<and> raf_callbacks a' = Suc (raf_callbacks a)"
    by (simp add: app_js_animate_Done)
  have 3: "raf_callbacks (run (state_of (new_App w0)) cs) = Suc 0"
    by (rule run_raf [OF new_App_raf])
  have 4: "raf_callbacks (app_js_run (state_of app_js_new_App) cs1) = Suc 0"
    by (rule app_js_run_raf [OF app_js_new_App_raf])
  show ?thesis
    using 1 2 3 4 by (simp add: animation_frame_once)
qed

theorem animate_always_reschedules_witness:
  "raf_callbacks (run (state_of (new_App \<lparr>innerWidth = 800, innerHeight = 600, body_top = 0\<rparr>))
      [Animation_frame \<lparr>innerWidth = 800, innerHeight = 600, body_top = 0\<rparr>,
       Call_add [Leaf \<lparr>name = Some ''torus'', mesh = 1\<rparr>],
       Animation_frame \<lparr>innerWidth = 800, innerHeight = 600, body_top = - 40\<rparr>]) = 1
   \<and> trace (run (state_of (new_App \<lparr>innerWidth = 800, innerHeight = 600, body_top = 0\<rparr>))
      [Animation_frame \<lparr>innerWidth = 800, innerHeight = 600, body_top = 0\<rparr>,
       Call_add [Leaf \<lparr>name = Some ''torus'', mesh = 1\<rparr>],
       Animation_frame \<lparr>innerWidth = 800, innerHeight = 600, body_top = - 40\<rparr>])
     = [Render, ControlsUpdate, RequestAnimationFrame,
        Render, ControlsUpdate, RequestAnimationFrame,
        SceneAdd 1,
        Render, RotationAdd 1 X 0.01, RotationAdd 1 Y 0.01, RotationAdd 1 Z 0.01,
        ControlsUpdate, RequestAnimationFrame]
   \<and> raf_callbacks (app_js_run (state_of app_js_new_App)
      [App_js_animation_frame, App_js_add \<lparr>name = Some ''torus'', mesh = 1\<rparr>,
       App_js_animation_frame]) = 1
   \<and> trace (app_js_run (state_of app_js_new_App)
      [App_js_animation_frame, App_js_add \<lparr>name = Some ''torus'', mesh = 1\<rparr>,
       App_js_animation_frame])
     = [Render, RequestAnimationFrame,
        Render, RequestAnimationFrame,
        SceneAdd 1,
        Render, RotationAdd 1 X 0.01, RotationAdd 1 Y 0.01, RequestAnimationFrame]"
  using animate_always_reschedules
    [of _ _ "\<lparr>innerWidth = 800, innerHeight = 600, body_top = 0\<rparr>"
        "[Animation_frame \<lparr>innerWidth = 800, innerHeight = 600, body_top = 0\<rparr>,
          Call_add [Leaf \<lparr>name = Some ''torus'', mesh = 1\<rparr>],
          Animation_frame \<lparr>innerWidth = 800, innerHeight = 600, body_top = - 40\<rparr>]"
        "[App_js_animation_frame, App_js_add \<lparr>name = Some ''torus'', mesh = 1\<rparr>,
          App_js_animation_frame]"]
  by (simp add: registry_eval machine_eval)

subsection \<open>The size getter\<close>

lemma get_size_eq:
  "get_size w =
     \<lparr>width = innerWidth w, height = innerHeight w, aspect = js_div (innerWidth w) (innerHeight w)\<rparr>"
  by (simp add: get_size_def Let_def)

text \<open>
  Claim C6.  The \<open>size\<close> getter (the same in both revisions) returns the window's width
  and height as they are when it is read, and \<open>aspect\<close> is the quotient of the returned
  width by the returned height, for all dimensions; when the height is not zero this
  is the rational \<open>width / height\<close>.  Nothing is kept between two reads: after the window
  changes, the getter returns the new dimensions.
\<close>

theorem size_is_read_from_the_window:
  "width (get_size w) = innerWidth w
   \<and> height (get_size w) = innerHeight w
   \<and> aspect (get_size w) = js_div (width (get_size w)) (height (get_size w))
   \<and> (innerHeight w \<noteq> 0 \<longrightarrow>
        aspect (get_size w) = JsFinite (of_nat (innerWidth w) / of_nat (innerHeight w)))
   \<and> get_size (w\<lparr>innerWidth := x, innerHeight := y\<rparr>) = \<lparr>width = x, height = y, aspect = js_div x y\<rparr>"
  by (simp add: get_size_eq) (simp add: js_div_def)

theorem size_is_read_from_the_window_witness:
  "innerHeight \<lparr>innerWidth = 800, innerHeight = 600, body_top = 0\<rparr> \<noteq> 0
   \<and> get_size \<lparr>innerWidth = 800, innerHeight = 600, body_top = 0\<rparr>
       = \<lparr>width = 800, height = 600, aspect = JsFinite (4 / 3)\<rparr>
   \<and> get_size (\<lparr>innerWidth = 800, innerHeight = 600, body_top = 0\<rparr>\<lparr>innerWidth := 600, innerHeight := 800\<rparr>)
       = \<lparr>width = 600, height = 800, aspect = JsFinite (3 / 4)\<rparr>"
  using size_is_read_from_the_window [of "\<lparr>innerWidth = 800, innerHeight = 600, body_top = 0\<rparr>" 600 800]
  by (simp add: js_div_def get_size_eq)

end
